theory Spec2Isabelle
  imports Main
begin

section \<open>Python strings\<close>

text \<open>
  A Python \<open>str\<close> is a sequence of Unicode code points; a code point is a natural
  number. String literals of the source are written \<open>str ''...''\<close>.
\<close>

type_synonym pystr = "nat list"

definition str :: "string \<Rightarrow> pystr" where
  "str s = map of_char s"

text \<open>
  The classification of the ASCII code points is fixed and written out. What
  \<open>str.isdigit\<close>, \<open>str.isalnum\<close>, \<open>str.isspace\<close>, \<open>str.lower\<close> and
  \<open>str.upper\<close> do beyond ASCII is decided by the Unicode database of the Python
  runtime, which is not part of the program: it is a parameter of the model.
\<close>

record unicode_db =
  u_isdigit :: "nat \<Rightarrow> bool"
  u_isalnum :: "nat \<Rightarrow> bool"
  u_isspace :: "nat \<Rightarrow> bool"
  u_lower :: "pystr \<Rightarrow> pystr"
  u_upper :: "pystr \<Rightarrow> pystr"

definition is_ascii :: "nat \<Rightarrow> bool" where
  "is_ascii c = (c < 128)"

definition ascii_digit :: "nat \<Rightarrow> bool" where
  "ascii_digit c = (48 \<le> c \<and> c \<le> 57)"

definition ascii_upper_letter :: "nat \<Rightarrow> bool" where
  "ascii_upper_letter c = (65 \<le> c \<and> c \<le> 90)"

definition ascii_lower_letter :: "nat \<Rightarrow> bool" where
  "ascii_lower_letter c = (97 \<le> c \<and> c \<le> 122)"

definition ascii_space :: "nat \<Rightarrow> bool" where
  "ascii_space c = ((9 \<le> c \<and> c \<le> 13) \<or> (28 \<le> c \<and> c \<le> 32))"

definition char_isdigit :: "unicode_db \<Rightarrow> nat \<Rightarrow> bool" where
  "char_isdigit U c = (if is_ascii c then ascii_digit c else u_isdigit U c)"

definition char_isalnum :: "unicode_db \<Rightarrow> nat \<Rightarrow> bool" where
  "char_isalnum U c =
     (if is_ascii c then ascii_digit c \<or> ascii_upper_letter c \<or> ascii_lower_letter c
      else u_isalnum U c)"

definition char_isspace :: "unicode_db \<Rightarrow> nat \<Rightarrow> bool" where
  "char_isspace U c = (if is_ascii c then ascii_space c else u_isspace U c)"

text \<open>\<open>s.isdigit()\<close>: false on the empty string.\<close>

definition isdigit :: "unicode_db \<Rightarrow> pystr \<Rightarrow> bool" where
  "isdigit U s = (s \<noteq> [] \<and> list_all (char_isdigit U) s)"

definition lstrip :: "unicode_db \<Rightarrow> pystr \<Rightarrow> pystr" where
  "lstrip U s = dropWhile (char_isspace U) s"

definition rstrip :: "unicode_db \<Rightarrow> pystr \<Rightarrow> pystr" where
  "rstrip U s = rev (dropWhile (char_isspace U) (rev s))"

definition strip :: "unicode_db \<Rightarrow> pystr \<Rightarrow> pystr" where
  "strip U s = rstrip U (lstrip U s)"

definition ascii_lower :: "nat \<Rightarrow> nat" where
  "ascii_lower c = (if ascii_upper_letter c then c + 32 else c)"

definition ascii_upper :: "nat \<Rightarrow> nat" where
  "ascii_upper c = (if ascii_lower_letter c then c - 32 else c)"

definition lower :: "unicode_db \<Rightarrow> pystr \<Rightarrow> pystr" where
  "lower U s = (if list_all is_ascii s then map ascii_lower s else u_lower U s)"

definition upper :: "unicode_db \<Rightarrow> pystr \<Rightarrow> pystr" where
  "upper U s = (if list_all is_ascii s then map ascii_upper s else u_upper U s)"

text \<open>
  Line 119 of the source:
  \<^verbatim>\<open>"".join(c for c in code_data if c.isalnum() or c in ('-', '_')).rstrip()\<close>
\<close>

definition safe_char :: "unicode_db \<Rightarrow> nat \<Rightarrow> bool" where
  "safe_char U c = (char_isalnum U c \<or> c \<in> set (str ''-_''))"

definition sanitize :: "unicode_db \<Rightarrow> pystr \<Rightarrow> pystr" where
  "sanitize U code_data = rstrip U (filter (safe_char U) code_data)"

text \<open>\<open>str(n)\<close> for an integer, as the f-string of line 121 formats the row number.\<close>

fun digits :: "nat \<Rightarrow> pystr" where
  "digits n = (if n < 10 then [48 + n] else digits (n div 10) @ [48 + n mod 10])"

declare digits.simps [simp del]

definition str_of_int :: "int \<Rightarrow> pystr" where
  "str_of_int i = (if i < 0 then str ''-'' @ digits (nat (- i)) else digits (nat i))"

text \<open>
  \<open>s.replace(old, new)\<close>: every occurrence of \<open>old\<close>, found from the left and not
  overlapping, becomes \<open>new\<close>. With an empty \<open>old\<close> Python puts \<open>new\<close> before
  every character and at the end.
\<close>

function replace_from :: "pystr \<Rightarrow> pystr \<Rightarrow> pystr \<Rightarrow> pystr" where
  "replace_from [] old new = []"
| "replace_from (c # s) old new =
     (if old \<noteq> [] \<and> take (length old) (c # s) = old
      then new @ replace_from (drop (length old) (c # s)) old new
      else c # replace_from s old new)"
  by pat_completeness auto
termination
  by (relation "measure (\<lambda>(s, old, new). length s)") auto

definition replace :: "pystr \<Rightarrow> pystr \<Rightarrow> pystr \<Rightarrow> pystr" where
  "replace s old new =
     (if old = [] then new @ concat (map (\<lambda>c. c # new) s) else replace_from s old new)"

text \<open>\<open>os.path.join(a, b)\<close> with two arguments, in its POSIX form (\<open>posixpath\<close>).\<close>

definition path_join :: "pystr \<Rightarrow> pystr \<Rightarrow> pystr" where
  "path_join a b =
     (if b \<noteq> [] \<and> hd b = 47 then b
      else if a = [] \<or> last a = 47 then a @ b
      else a @ str ''/'' @ b)"

section \<open>Data model\<close>

text \<open>The seven arguments of \<open>generate_barcodes_from_csv\<close>.\<close>

record 'o config =
  input_csv :: pystr
  output_folder :: pystr
  code_format :: pystr
  img_format :: pystr
  options :: 'o
  col_index :: int
  skip_header :: bool

text \<open>
  A raised exception: the \<open>IndexError\<close> of a list access, an \<open>OSError\<close> (or one of
  its subclasses), the \<open>BarcodeNotFoundError\<close> of the library, or any other exception
  derived from \<open>Exception\<close> (\<open>ValueError\<close>, \<open>TypeError\<close>, \<open>csv.Error\<close>, ...), each
  with its message.
\<close>

datatype exn = IndexError | OSError pystr | BarcodeNotFoundError pystr | Raised pystr

text \<open>
  The value a call of the function gives back to its caller. A call ends by returning
  a value (\<open>Inr\<close>) or by an exception that no handler of the function catches
  (\<open>Inl\<close>).
\<close>

datatype pyval = PyNone | PyTuple int int

text \<open>
  What the CSV reader yields when asked for the next row: a row of fields, or an
  exception (a decoding or \<open>csv.Error\<close> fault); the end of the list is the end of
  the file.
\<close>

datatype read_item = Row "pystr list" | ReadFault exn

datatype open_result = NotFound | OpenFailed exn | Opened "read_item list"

text \<open>One constructor for each \<open>logging\<close> call of the source, in source order.\<close>

datatype log_entry =
    Info_Start pystr
  | Info_InputCsv pystr
  | Info_OutputFolder pystr
  | Info_FolderReady pystr
  | Error_MakeDirs exn
  | Info_UsingClass pystr
  | Error_FormatNotFound pystr
  | Warning_ImageFormat pystr
  | Info_HeaderSkipped "pystr list"
  | Warning_CsvEmpty
  | Warning_EmptyEntry int
  | Warning_NotEan13 int pystr
  | Info_Generated pystr pystr
  | Error_Code pystr int exn
  | Warning_TooFewColumns int int
  | Error_Row int exn
  | Error_CsvNotFound pystr
  | Error_CsvRead exn
  | Info_Summary int int

text \<open>
  The surroundings of the program: the Unicode tables of the runtime, the file system
  calls and the barcode library. \<open>makedirs\<close> gives the exception that
  \<open>os.makedirs(folder, exist_ok=True)\<close> raises, if any; \<open>get_barcode_class\<close> gives
  the name of the class the library has for the format, or the exception it raises;
  \<open>construct fmt code\<close> gives the exception that
  \<open>barcode_class(code, writer=ImageWriter())\<close> raises, if any; \<open>save\<close> is
  \<open>generated_barcode.save(path, options=options)\<close>: in a state \<open>'w\<close> of the outside
  world it raises or returns the name of the file it wrote, and leaves a new state.
\<close>

record ('w, 'o) env =
  udb :: unicode_db
  makedirs :: "pystr \<Rightarrow> exn option"
  get_barcode_class :: "pystr \<Rightarrow> exn + pystr"
  open_csv :: "pystr \<Rightarrow> open_result"
  construct :: "pystr \<Rightarrow> pystr \<Rightarrow> exn option"
  save :: "'w \<Rightarrow> pystr \<Rightarrow> pystr \<Rightarrow> pystr \<Rightarrow> 'o \<Rightarrow> (exn + pystr) \<times> 'w"

text \<open>
  The state of a run inside the read loop: the two counters, the log so far, the
  outside world, and the images written so far (requested path, name returned).
\<close>

record 'w run_state =
  processed_count :: int
  skipped_count :: int
  log :: "log_entry list"
  world :: 'w
  written :: "(pystr \<times> pystr) list"

text \<open>
  What a finished call leaves behind: how it ended, the two counters if they
  were assigned (lines 76 and 77) before the call ended, the log, the world and the
  images written.
\<close>

record 'w run_result =
  retval :: "exn + pyval"
  counters :: "(int \<times> int) option"
  out_log :: "log_entry list"
  out_world :: 'w
  out_written :: "(pystr \<times> pystr) list"

section \<open>The program\<close>

text \<open>\<open>row[col_index]\<close>: a negative index counts from the end.\<close>

definition index :: "'a list \<Rightarrow> int \<Rightarrow> exn + 'a" where
  "index xs i =
     (if 0 \<le> i \<and> i < int (length xs) then Inr (xs ! nat i)
      else if i < 0 \<and> - i \<le> int (length xs) then Inr (xs ! nat (int (length xs) + i))
      else Inl IndexError)"

definition logging :: "'w run_state \<Rightarrow> log_entry \<Rightarrow> 'w run_state" where
  "logging st e = st\<lparr>log := log st @ [e]\<rparr>"

text \<open>A log call followed by \<open>skipped_count += 1\<close>.\<close>

definition skip_row :: "'w run_state \<Rightarrow> log_entry \<Rightarrow> 'w run_state" where
  "skip_row st e = (logging st e)\<lparr>skipped_count := skipped_count st + 1\<rparr>"

text \<open>Lines 119 to 122: the local variables \<open>safe_filename\<close> and \<open>output_filename\<close>.\<close>

definition safe_filename :: "unicode_db \<Rightarrow> int \<Rightarrow> pystr \<Rightarrow> pystr" where
  "safe_filename U row_number code_data =
     (if sanitize U code_data = [] then str ''kod_wiersz_'' @ str_of_int row_number
      else sanitize U code_data)"

definition output_filename :: "unicode_db \<Rightarrow> 'o config \<Rightarrow> int \<Rightarrow> pystr \<Rightarrow> pystr" where
  "output_filename U cfg row_number code_data =
     safe_filename U row_number code_data @ str ''.'' @ lower U (img_format cfg)"

text \<open>Line 123, and the argument that line 127 passes to \<open>save\<close>.\<close>

definition output_path :: "unicode_db \<Rightarrow> 'o config \<Rightarrow> int \<Rightarrow> pystr \<Rightarrow> pystr" where
  "output_path U cfg row_number code_data =
     path_join (output_folder cfg) (output_filename U cfg row_number code_data)"

definition save_path :: "unicode_db \<Rightarrow> 'o config \<Rightarrow> int \<Rightarrow> pystr \<Rightarrow> pystr" where
  "save_path U cfg row_number code_data =
     replace (output_path U cfg row_number code_data)
       (str ''.'' @ lower U (img_format cfg)) []"

text \<open>Lines 114 to 133: the inner \<open>try\<close> with its handler.\<close>

definition emit_barcode ::
  "('w, 'o) env \<Rightarrow> 'o config \<Rightarrow> int \<Rightarrow> pystr \<Rightarrow> 'w run_state \<Rightarrow> 'w run_state" where
  "emit_barcode E cfg row_number code_data st =
     (case construct E (code_format cfg) code_data of
        Some e \<Rightarrow> skip_row st (Error_Code code_data row_number e)
      | None \<Rightarrow>
          (case save E (world st) (code_format cfg) code_data
                  (save_path (udb E) cfg row_number code_data) (options cfg) of
             (Inl e, w) \<Rightarrow> skip_row (st\<lparr>world := w\<rparr>) (Error_Code code_data row_number e)
           | (Inr actual_filename, w) \<Rightarrow>
               (logging st (Info_Generated code_data actual_filename))
                 \<lparr>processed_count := processed_count st + 1, world := w,
                  written := written st
                    @ [(save_path (udb E) cfg row_number code_data, actual_filename)]\<rparr>))"

text \<open>Lines 96 to 141: the body of the loop for one row, with the outer handler.\<close>

definition process_row ::
  "('w, 'o) env \<Rightarrow> 'o config \<Rightarrow> int \<Rightarrow> pystr list \<Rightarrow> 'w run_state \<Rightarrow> 'w run_state" where
  "process_row E cfg row_number row st =
     (if int (length row) > col_index cfg then
        (case index row (col_index cfg) of
           Inl e \<Rightarrow> skip_row st (Error_Row row_number e)
         | Inr field \<Rightarrow>
             (let code_data = strip (udb E) field in
              if code_data = [] then skip_row st (Warning_EmptyEntry row_number)
              else if lower (udb E) (code_format cfg) = str ''ean13''
                      \<and> (\<not> isdigit (udb E) code_data \<or> length code_data \<noteq> 12)
              then skip_row st (Warning_NotEan13 row_number code_data)
              else emit_barcode E cfg row_number code_data st))
      else skip_row st (Warning_TooFewColumns row_number (col_index cfg)))"

text \<open>Line 95: the row number of the \<open>i\<close>-th row that \<open>enumerate\<close> yields.\<close>

definition row_number_of :: "'o config \<Rightarrow> nat \<Rightarrow> int" where
  "row_number_of cfg i = int i + (if skip_header cfg then 2 else 1)"

text \<open>
  Lines 94 to 141: the \<open>for\<close> loop. It ends with the rows, or with the exception the
  reader raises when asked for the next row, which no handler inside the loop sees.
\<close>

fun process_rows ::
  "('w, 'o) env \<Rightarrow> 'o config \<Rightarrow> nat \<Rightarrow> read_item list \<Rightarrow> 'w run_state
     \<Rightarrow> 'w run_state \<times> exn option" where
  "process_rows E cfg i [] st = (st, None)"
| "process_rows E cfg i (ReadFault e # rest) st = (st, Some e)"
| "process_rows E cfg i (Row row # rest) st =
     process_rows E cfg (Suc i) rest (process_row E cfg (row_number_of cfg i) row st)"

text \<open>A bare \<open>return\<close>, and the end of the function after the summary of line 148.\<close>

definition returned :: "'w run_state \<Rightarrow> 'w run_result" where
  "returned st =
     \<lparr>retval = Inr PyNone, counters = Some (processed_count st, skipped_count st),
      out_log = log st, out_world = world st, out_written = written st\<rparr>"

definition summary :: "'w run_state \<Rightarrow> 'w run_result" where
  "summary st =
     returned (logging st (Info_Summary (processed_count st) (skipped_count st)))"

text \<open>Lines 80 to 148: reading the file, with the two handlers of lines 143 and 145.\<close>

definition read_loop ::
  "('w, 'o) env \<Rightarrow> 'o config \<Rightarrow> read_item list \<Rightarrow> 'w run_state \<Rightarrow> 'w run_result" where
  "read_loop E cfg items st =
     (case process_rows E cfg 0 items st of
        (st', None) \<Rightarrow> summary st'
      | (st', Some e) \<Rightarrow> summary (logging st' (Error_CsvRead e)))"

definition read_csv ::
  "('w, 'o) env \<Rightarrow> 'o config \<Rightarrow> 'w run_state \<Rightarrow> 'w run_result" where
  "read_csv E cfg st =
     (case open_csv E (input_csv cfg) of
        NotFound \<Rightarrow> summary (logging st (Error_CsvNotFound (input_csv cfg)))
      | OpenFailed e \<Rightarrow> summary (logging st (Error_CsvRead e))
      | Opened items \<Rightarrow>
          if skip_header cfg then
            (case items of
               [] \<Rightarrow> returned (logging st Warning_CsvEmpty)
             | ReadFault e # rest \<Rightarrow> summary (logging st (Error_CsvRead e))
             | Row header # rest \<Rightarrow> read_loop E cfg rest (logging st (Info_HeaderSkipped header)))
          else read_loop E cfg items st)"

definition valid_image_formats :: "pystr list" where
  "valid_image_formats =
     [str ''PNG'', str ''JPEG'', str ''BMP'', str ''GIF'', str ''TIFF'', str ''SVG'']"

text \<open>Lines 50 to 53, the log lines every call starts with.\<close>

definition start_log :: "'o config \<Rightarrow> log_entry list" where
  "start_log cfg =
     [Info_Start (code_format cfg), Info_InputCsv (input_csv cfg),
      Info_OutputFolder (output_folder cfg)]"

text \<open>A \<open>return\<close> of line 60 or 68, before the counters exist.\<close>

definition aborted :: "'w \<Rightarrow> log_entry list \<Rightarrow> 'w run_result" where
  "aborted w l =
     \<lparr>retval = Inr PyNone, counters = None, out_log = l, out_world = w, out_written = []\<rparr>"

text \<open>
  An exception that the handler of line 58 or of line 66 does not catch: it leaves the
  function, before the counters exist.
\<close>

definition propagated :: "'w \<Rightarrow> log_entry list \<Rightarrow> exn \<Rightarrow> 'w run_result" where
  "propagated w l e =
     \<lparr>retval = Inl e, counters = None, out_log = l, out_world = w, out_written = []\<rparr>"

text \<open>
  The log at line 76, when the folder was made and the library gave a class of the
  name \<open>cls\<close> (line 65 logs \<open>barcode_class.__name__\<close>).
\<close>

definition setup_log :: "('w, 'o) env \<Rightarrow> 'o config \<Rightarrow> pystr \<Rightarrow> log_entry list" where
  "setup_log E cfg cls =
     start_log cfg
     @ [Info_FolderReady (output_folder cfg), Info_UsingClass cls]
     @ (if upper (udb E) (img_format cfg) \<notin> set valid_image_formats
           \<and> lower (udb E) (img_format cfg) \<noteq> str ''svg''
        then [Warning_ImageFormat (img_format cfg)] else [])"

text \<open>
  Lines 37 to 148. Line 58 catches \<open>OSError\<close> only and line 66
  \<open>BarcodeNotFoundError\<close> only; any other exception of these two calls leaves the
  function.
\<close>

definition generate_barcodes_from_csv ::
  "('w, 'o) env \<Rightarrow> 'o config \<Rightarrow> 'w \<Rightarrow> 'w run_result" where
  "generate_barcodes_from_csv E cfg w =
     (case makedirs E (output_folder cfg) of
        Some e \<Rightarrow>
          (case e of
             OSError m \<Rightarrow> aborted w (start_log cfg @ [Error_MakeDirs e])
           | _ \<Rightarrow> propagated w (start_log cfg) e)
      | None \<Rightarrow>
          (case get_barcode_class E (code_format cfg) of
             Inl e \<Rightarrow>
               (case e of
                  BarcodeNotFoundError m \<Rightarrow>
                    aborted w (start_log cfg @ [Info_FolderReady (output_folder cfg),
                      Error_FormatNotFound (code_format cfg)])
                | _ \<Rightarrow> propagated w (start_log cfg @ [Info_FolderReady (output_folder cfg)]) e)
           | Inr cls \<Rightarrow>
               read_csv E cfg
                 \<lparr>processed_count = 0, skipped_count = 0, log = setup_log E cfg cls,
                  world = w, written = []\<rparr>))"

section \<open>Examples of surroundings\<close>

text \<open>
  Tables that classify no code point beyond ASCII and leave such strings as they are:
  enough for the examples, whose strings are all ASCII.
\<close>

definition plain_db :: unicode_db where
  "plain_db =
     \<lparr>u_isdigit = (\<lambda>c. False), u_isalnum = (\<lambda>c. False), u_isspace = (\<lambda>c. False),
      u_lower = (\<lambda>s. s), u_upper = (\<lambda>s. s)\<rparr>"

text \<open>
  Surroundings in which everything succeeds: the folder can be made, the library knows
  \<open>ean13\<close> and \<open>code128\<close>, the file \<open>kody.csv\<close> holds the given rows, and saving
  writes \<open>path.png\<close>; the world is the list of the files written.
\<close>

definition demo_env :: "read_item list \<Rightarrow> (pystr list, unit) env" where
  "demo_env items =
     \<lparr>udb = plain_db,
      makedirs = (\<lambda>d. None),
      get_barcode_class =
        (\<lambda>f. if lower plain_db f = str ''ean13'' then Inr (str ''EuropeanArticleNumber13'')
             else if lower plain_db f = str ''code128'' then Inr (str ''Code128'')
             else Inl (BarcodeNotFoundError f)),
      open_csv = (\<lambda>p. if p = str ''kody.csv'' then Opened items else NotFound),
      construct = (\<lambda>f c. None),
      save = (\<lambda>w f c p opts. (Inr (p @ str ''.png''), w @ [p @ str ''.png'']))\<rparr>"

definition demo_config :: "unit config" where
  "demo_config =
     \<lparr>input_csv = str ''kody.csv'', output_folder = str ''wygenerowane_kody_kreskowe'',
      code_format = str ''ean13'', img_format = str ''PNG'', options = (),
      col_index = 0, skip_header = True\<rparr>"

definition fresh :: "pystr list run_state" where
  "fresh = \<lparr>processed_count = 0, skipped_count = 0, log = [], world = [], written = []\<rparr>"

definition three_rows :: "read_item list" where
  "three_rows =
     [Row [str ''code''], Row [str ''123456789012''], Row [str ''1234''], Row [str ''abc'']]"

text \<open>The same surroundings with a library that refuses every code, or cannot save.\<close>

definition failing_construct :: "(pystr list, unit) env" where
  "failing_construct = (demo_env [])\<lparr>construct := (\<lambda>f c. Some (Raised (str ''bad'')))\<rparr>"

definition failing_save :: "(pystr list, unit) env" where
  "failing_save = (demo_env [])\<lparr>save := (\<lambda>w f c p opts. (Inl (Raised (str ''full'')), w))\<rparr>"

text \<open>
  Surroundings in which the output folder cannot be made (\<open>PermissionError\<close>, an
  \<open>OSError\<close>), and surroundings in which \<open>os.makedirs\<close> refuses a path with a NUL
  character in it, as it does, by a \<open>ValueError\<close>.
\<close>

definition no_folder :: "(pystr list, unit) env" where
  "no_folder = (demo_env [])\<lparr>makedirs := (\<lambda>d. Some (OSError (str ''denied'')))\<rparr>"

definition nul_checking :: "(pystr list, unit) env" where
  "nul_checking =
     (demo_env [])\<lparr>makedirs :=
        (\<lambda>d. if 0 \<in> set d then Some (Raised (str ''embedded null byte'')) else None)\<rparr>"

section \<open>Notions used in the statements\<close>

text \<open>How many rows the \<open>for\<close> loop obtains from the reader before it ends.\<close>

fun rows_read :: "read_item list \<Rightarrow> nat" where
  "rows_read [] = 0"
| "rows_read (ReadFault e # rest) = 0"
| "rows_read (Row row # rest) = Suc (rows_read rest)"

text \<open>What is left for the loop once lines 85 to 91 have dealt with the header.\<close>

fun data_rows :: "bool \<Rightarrow> read_item list \<Rightarrow> read_item list" where
  "data_rows True (Row header # rest) = rest"
| "data_rows True items = []"
| "data_rows False items = items"

definition rows_of_file :: "('w, 'o) env \<Rightarrow> 'o config \<Rightarrow> read_item list" where
  "rows_of_file E cfg =
     (case open_csv E (input_csv cfg) of
        Opened items \<Rightarrow> data_rows (skip_header cfg) items
      | _ \<Rightarrow> [])"

text \<open>The row number a log entry reports, for the entries that report one.\<close>

fun reported_row :: "log_entry \<Rightarrow> int option" where
  "reported_row (Warning_EmptyEntry n) = Some n"
| "reported_row (Warning_NotEan13 n c) = Some n"
| "reported_row (Error_Code c n e) = Some n"
| "reported_row (Warning_TooFewColumns n i) = Some n"
| "reported_row (Error_Row n e) = Some n"
| "reported_row e = None"

text \<open>
  An entry of a row reports the number \<open>n\<close>; the entry of a success (line 128) names
  the code and the file only.
\<close>

definition reports :: "log_entry \<Rightarrow> int \<Rightarrow> bool" where
  "reports e n = (reported_row e = Some n \<or> (\<exists>c f. e = Info_Generated c f))"

text \<open>One row: one log entry, and one of the two counters one higher.\<close>

definition row_outcome :: "'w run_state \<Rightarrow> 'w run_state \<Rightarrow> int \<Rightarrow> bool" where
  "row_outcome st st' n =
     (\<exists>e. log st' = log st @ [e]
        \<and> ((processed_count st' = processed_count st + 1 \<and> skipped_count st' = skipped_count st
             \<and> (\<exists>c f. e = Info_Generated c f))
           \<or> (processed_count st' = processed_count st \<and> skipped_count st' = skipped_count st + 1
             \<and> written st' = written st \<and> reported_row e = Some n)))"

text \<open>
  The row passes the checks of lines 97 to 110 and reaches the inner \<open>try\<close> with
  \<open>code_data = code\<close>.
\<close>

definition reaches_rendering ::
  "('w, 'o) env \<Rightarrow> 'o config \<Rightarrow> pystr list \<Rightarrow> pystr \<Rightarrow> bool" where
  "reaches_rendering E cfg row code =
     (case index row (col_index cfg) of
        Inl e \<Rightarrow> False
      | Inr field \<Rightarrow>
          code = strip (udb E) field \<and> code \<noteq> []
          \<and> \<not> (lower (udb E) (code_format cfg) = str ''ean13''
                \<and> (\<not> isdigit (udb E) code \<or> length code \<noteq> 12)))"

section \<open>Filename sanitization\<close>

lemma rstrip_idem: "rstrip U (rstrip U s) = rstrip U s"
proof -
  have "dropWhile P (dropWhile P xs) = dropWhile P xs" for P and xs :: "nat list"
    by (induction xs) auto
  then show ?thesis by (simp add: rstrip_def)
qed

lemma set_rstrip: "set (rstrip U s) \<subseteq> set s"
proof -
  have "set (dropWhile (char_isspace U) (rev s)) \<subseteq> set (rev s)"
    by (rule set_dropWhileD[THEN subsetI]) 
  then show ?thesis by (simp add: rstrip_def)
qed

lemma filter_sanitize: "filter (safe_char U) (sanitize U s) = sanitize U s"
proof -
  have "\<forall>c \<in> set (sanitize U s). safe_char U c"
    using set_rstrip[of U "filter (safe_char U) s"] by (auto simp: sanitize_def)
  then show ?thesis by (simp add: filter_id_conv)
qed

text \<open>
  C6. Sanitizing a filename twice gives what sanitizing it once gives, whatever the
  Unicode tables are; and \<open>"590-123/456?789"\<close> is sanitized to \<open>"590-123456789"\<close>.
\<close>

theorem sanitize_idempotent:
  "sanitize U (sanitize U s) = sanitize U s
   \<and> sanitize U (str ''590-123/456?789'') = str ''590-123456789''"
proof
  have "sanitize U (sanitize U s) = rstrip U (sanitize U s)"
    by (simp add: sanitize_def[of U "sanitize U s"] filter_sanitize)
  also have "\<dots> = sanitize U s"
    by (simp add: sanitize_def rstrip_idem)
  finally show "sanitize U (sanitize U s) = sanitize U s" .
next
  show "sanitize U (str ''590-123/456?789'') = str ''590-123456789''"
    by (simp add: sanitize_def rstrip_def str_def safe_char_def char_isalnum_def
        char_isspace_def is_ascii_def ascii_digit_def ascii_upper_letter_def
        ascii_lower_letter_def ascii_space_def)
qed

section \<open>Field extraction and validation of one row\<close>

lemma index_Inr_guard: "index row c = Inr field \<Longrightarrow> int (length row) > c"
  by (auto simp: index_def Let_def split: if_splits)

lemma index_raises:
  "(\<exists>e. index row c = Inl e)
     \<longleftrightarrow> (if 0 \<le> c then int (length row) \<le> c else int (length row) < - c)"
  by (auto simp: index_def Let_def)

lemma strip_spaces: "strip U (str ''   '') = []"
  by (simp add: strip_def lstrip_def rstrip_def str_def char_isspace_def is_ascii_def
      ascii_space_def)

text \<open>
  C7. A row whose field in the target column is empty once stripped is skipped: the
  warning is logged and \<open>skipped_count\<close> grows by one, while \<open>processed_count\<close>, the
  world and the images written stay as they were. The field \<open>"   "\<close> is such a field.
\<close>

theorem empty_entry_skipped:
  assumes "index row (col_index cfg) = Inr field" and "strip (udb E) field = []"
  shows "process_row E cfg n row st
           = st\<lparr>log := log st @ [Warning_EmptyEntry n], skipped_count := skipped_count st + 1\<rparr>
         \<and> strip (udb E) (str ''   '') = []"
  using assms index_Inr_guard[OF assms(1)]
  by (simp add: process_row_def skip_row_def logging_def strip_spaces)

theorem empty_entry_skipped_witness:
  "process_row (demo_env []) demo_config 2 [str ''   ''] fresh
     = fresh\<lparr>log := [Warning_EmptyEntry 2], skipped_count := 1\<rparr>"
proof -
  have a: "index [str ''   ''] (col_index demo_config) = Inr (str ''   '')"
    by (simp add: index_def demo_config_def)
  have b: "strip (udb (demo_env [])) (str ''   '') = []"
    by (rule strip_spaces)
  show ?thesis
    using empty_entry_skipped[OF a b, of 2 fresh] by (simp add: fresh_def)
qed

text \<open>
  C1. When the lowercased format name is \<open>ean13\<close> and the stripped field \<open>code\<close> is not
  empty: unless \<open>code\<close> is twelve digit characters, the row is skipped (the warning is
  logged, \<open>skipped_count\<close> grows by one, \<open>processed_count\<close>, the world and the images
  written are unchanged); and twelve digit characters pass, the row going on to the
  rendering of lines 114 to 133.
\<close>

theorem ean13_validation:
  assumes "lower (udb E) (code_format cfg) = str ''ean13''"
    and "index row (col_index cfg) = Inr field"
    and "strip (udb E) field = code" and "code \<noteq> []"
  shows "(\<not> (list_all (char_isdigit (udb E)) code \<and> length code = 12) \<longrightarrow>
            process_row E cfg n row st
              = st\<lparr>log := log st @ [Warning_NotEan13 n code],
                   skipped_count := skipped_count st + 1\<rparr>)
       \<and> (list_all (char_isdigit (udb E)) code \<and> length code = 12 \<longrightarrow>
            process_row E cfg n row st = emit_barcode E cfg n code st)"
  using assms index_Inr_guard[OF assms(2)]
  by (auto simp: process_row_def skip_row_def logging_def isdigit_def)

theorem ean13_validation_witness:
  "process_row (demo_env []) demo_config 2 [str ''12345678901A''] fresh
     = fresh\<lparr>log := [Warning_NotEan13 2 (str ''12345678901A'')], skipped_count := 1\<rparr>
   \<and> process_row (demo_env []) demo_config 2 [str '' 123456789012''] fresh
     = emit_barcode (demo_env []) demo_config 2 (str ''123456789012'') fresh"
proof -
  have a: "lower (udb (demo_env [])) (code_format demo_config) = str ''ean13''"
    by code_simp
  have b1: "index [str ''12345678901A''] (col_index demo_config) = Inr (str ''12345678901A'')"
    by code_simp
  have c1: "strip (udb (demo_env [])) (str ''12345678901A'') = str ''12345678901A''"
    by code_simp
  have d1: "str ''12345678901A'' \<noteq> []"
    by code_simp
  have e1: "\<not> (list_all (char_isdigit (udb (demo_env []))) (str ''12345678901A'')
               \<and> length (str ''12345678901A'') = 12)"
    by code_simp
  have b2: "index [str '' 123456789012''] (col_index demo_config) = Inr (str '' 123456789012'')"
    by code_simp
  have c2: "strip (udb (demo_env [])) (str '' 123456789012'') = str ''123456789012''"
    by code_simp
  have d2: "str ''123456789012'' \<noteq> []"
    by code_simp
  have e2: "list_all (char_isdigit (udb (demo_env []))) (str ''123456789012'')
               \<and> length (str ''123456789012'') = 12"
    by code_simp
  show ?thesis
    using ean13_validation[OF a b1 c1 d1, of 2 fresh] e1
          ean13_validation[OF a b2 c2 d2, of 2 fresh] e2
    by (simp add: fresh_def)
qed

text \<open>
  C8. A row that has no more fields than the target column index fails the guard of
  line 97, so the field access, which would raise \<open>IndexError\<close>, is not made: line
  136 logs its warning, \<open>skipped_count\<close> grows by one and nothing else changes. No
  exception arises, and none reaches the handler of line 139.
\<close>

theorem short_row_skipped:
  assumes "int (length row) \<le> col_index cfg"
  shows "process_row E cfg n row st
           = st\<lparr>log := log st @ [Warning_TooFewColumns n (col_index cfg)],
                skipped_count := skipped_count st + 1\<rparr>
         \<and> \<not> int (length row) > col_index cfg
         \<and> index row (col_index cfg) = Inl IndexError"
  using assms
  by (simp add: process_row_def skip_row_def logging_def index_def)

theorem short_row_skipped_witness:
  "process_row (demo_env []) (demo_config\<lparr>col_index := 1\<rparr>) 2 [str ''123456789012''] fresh
     = fresh\<lparr>log := [Warning_TooFewColumns 2 1], skipped_count := 1\<rparr>
   \<and> index [str ''123456789012''] 1 = Inl IndexError"
proof -
  have a: "int (length [str ''123456789012'']) \<le> col_index (demo_config\<lparr>col_index := 1\<rparr>)"
    by simp
  show ?thesis
    using short_row_skipped[OF a, of "demo_env []" 2 fresh] by (simp add: fresh_def)
qed

section \<open>The outcome of one row and of the loop\<close>

lemma emit_barcode_cases:
  "(\<exists>f. emit_barcode E cfg n code st
         = st\<lparr>log := log st @ [Info_Generated code f],
              processed_count := processed_count st + 1,
              world := snd (save E (world st) (code_format cfg) code
                              (save_path (udb E) cfg n code) (options cfg)),
              written := written st @ [(save_path (udb E) cfg n code, f)]\<rparr>)
   \<or> (\<exists>e w. emit_barcode E cfg n code st
         = st\<lparr>log := log st @ [Error_Code code n e],
              skipped_count := skipped_count st + 1, world := w\<rparr>)"
proof (cases "construct E (code_format cfg) code")
  case (Some e)
  then have "emit_barcode E cfg n code st
         = st\<lparr>log := log st @ [Error_Code code n e],
              skipped_count := skipped_count st + 1, world := world st\<rparr>"
    by (simp add: emit_barcode_def skip_row_def logging_def)
  then show ?thesis by blast
next
  case None
  obtain r w where sv: "save E (world st) (code_format cfg) code
                              (save_path (udb E) cfg n code) (options cfg) = (r, w)"
    by (cases "save E (world st) (code_format cfg) code
                              (save_path (udb E) cfg n code) (options cfg)")
  show ?thesis
  proof (cases r)
    case (Inl e)
    with None sv have "emit_barcode E cfg n code st
         = st\<lparr>log := log st @ [Error_Code code n e],
              skipped_count := skipped_count st + 1, world := w\<rparr>"
      by (simp add: emit_barcode_def skip_row_def logging_def)
    then show ?thesis by blast
  next
    case (Inr f)
    with None sv have "emit_barcode E cfg n code st
         = st\<lparr>log := log st @ [Info_Generated code f],
              processed_count := processed_count st + 1,
              world := snd (save E (world st) (code_format cfg) code
                              (save_path (udb E) cfg n code) (options cfg)),
              written := written st @ [(save_path (udb E) cfg n code, f)]\<rparr>"
      by (simp add: emit_barcode_def skip_row_def logging_def)
    then show ?thesis by blast
  qed
qed

lemma process_row_outcome: "row_outcome st (process_row E cfg n row st) n"
proof -
  have skip: "row_outcome st (skip_row st e) n" if "reported_row e = Some n" for e
    using that by (simp add: row_outcome_def skip_row_def logging_def)
  have emit: "row_outcome st (emit_barcode E cfg n code st) n" for code
    using emit_barcode_cases[of E cfg n code st]
    by (auto simp: row_outcome_def)
  show ?thesis
    unfolding process_row_def Let_def
    by (auto intro!: skip emit split: sum.splits)
qed

lemma reaches_rendering_emit:
  "reaches_rendering E cfg row code \<Longrightarrow>
     process_row E cfg n row st = emit_barcode E cfg n code st"
  by (auto simp: reaches_rendering_def process_row_def Let_def index_Inr_guard
           split: sum.splits)

lemma row_outcome_counters:
  assumes "row_outcome st st' n"
  shows "processed_count st' + skipped_count st' = processed_count st + skipped_count st + 1"
    and "processed_count st \<le> processed_count st'"
    and "skipped_count st \<le> skipped_count st'"
  using assms by (auto simp: row_outcome_def)

lemma process_rows_counters:
  "processed_count (fst (process_rows E cfg i items st))
     + skipped_count (fst (process_rows E cfg i items st))
     = processed_count st + skipped_count st + int (rows_read items)
   \<and> processed_count st \<le> processed_count (fst (process_rows E cfg i items st))
   \<and> skipped_count st \<le> skipped_count (fst (process_rows E cfg i items st))"
proof (induction items arbitrary: i st)
  case Nil
  show ?case by simp
next
  case (Cons item items)
  show ?case
  proof (cases item)
    case (ReadFault e)
    then show ?thesis by simp
  next
    case (Row row)
    let ?st1 = "process_row E cfg (row_number_of cfg i) row st"
    note step = row_outcome_counters[OF process_row_outcome[of st E cfg "row_number_of cfg i" row]]
    from Cons.IH[of "Suc i" ?st1] step Row show ?thesis by simp
  qed
qed

lemma summary_counters [simp]:
  "counters (summary st) = Some (processed_count st, skipped_count st)"
  by (simp add: summary_def returned_def logging_def)

lemma returned_counters [simp]:
  "counters (returned st) = Some (processed_count st, skipped_count st)"
  by (simp add: returned_def)

lemma logging_counters [simp]:
  "processed_count (logging st e) = processed_count st"
  "skipped_count (logging st e) = skipped_count st"
  by (simp_all add: logging_def)

lemma read_loop_counters:
  "counters (read_loop E cfg items st)
     = Some (processed_count (fst (process_rows E cfg 0 items st)),
             skipped_count (fst (process_rows E cfg 0 items st)))"
  by (cases "process_rows E cfg 0 items st") (auto simp: read_loop_def split: option.splits)

lemma read_csv_counters:
  "\<exists>p s. counters (read_csv E cfg st) = Some (p, s)
     \<and> p + s = processed_count st + skipped_count st + int (rows_read (rows_of_file E cfg))
     \<and> processed_count st \<le> p \<and> skipped_count st \<le> s"
proof (cases "open_csv E (input_csv cfg)")
  case NotFound
  then show ?thesis by (simp add: read_csv_def rows_of_file_def)
next
  case (OpenFailed e)
  then show ?thesis by (simp add: read_csv_def rows_of_file_def)
next
  case (Opened items)
  show ?thesis
  proof (cases "skip_header cfg")
    case False
    with Opened show ?thesis
      using process_rows_counters[of E cfg 0 items st]
      by (simp add: read_csv_def rows_of_file_def read_loop_counters)
  next
    case True
    show ?thesis
    proof (cases items)
      case Nil
      with True Opened show ?thesis by (simp add: read_csv_def rows_of_file_def)
    next
      case (Cons item rest)
      show ?thesis
      proof (cases item)
        case (ReadFault e)
        with Cons True Opened show ?thesis by (simp add: read_csv_def rows_of_file_def)
      next
        case (Row header)
        with Cons True Opened show ?thesis
          using process_rows_counters[of E cfg 0 rest "logging st (Info_HeaderSkipped header)"]
          by (simp add: read_csv_def rows_of_file_def read_loop_counters)
      qed
    qed
  qed
qed

text \<open>
  C10. Processing one row adds one to exactly one of the two counters. Hence after the
  loop has obtained \<open>n\<close> rows from the reader the sum of the counters has grown by
  \<open>n\<close>, and neither counter has gone down. At the end of a call that reached line 76
  both counters are at least zero and add up to the number of data rows read.
\<close>

theorem counter_conservation:
  "((processed_count (process_row E cfg n row st) = processed_count st + 1
       \<and> skipped_count (process_row E cfg n row st) = skipped_count st)
     \<or> (processed_count (process_row E cfg n row st) = processed_count st
       \<and> skipped_count (process_row E cfg n row st) = skipped_count st + 1))
   \<and> processed_count (fst (process_rows E cfg i items st))
       + skipped_count (fst (process_rows E cfg i items st))
       = processed_count st + skipped_count st + int (rows_read items)
   \<and> processed_count st \<le> processed_count (fst (process_rows E cfg i items st))
   \<and> skipped_count st \<le> skipped_count (fst (process_rows E cfg i items st))
   \<and> (\<forall>p s. counters (generate_barcodes_from_csv E cfg w) = Some (p, s) \<longrightarrow>
         0 \<le> p \<and> 0 \<le> s \<and> p + s = int (rows_read (rows_of_file E cfg)))"
proof -
  have one: "(processed_count (process_row E cfg n row st) = processed_count st + 1
       \<and> skipped_count (process_row E cfg n row st) = skipped_count st)
     \<or> (processed_count (process_row E cfg n row st) = processed_count st
       \<and> skipped_count (process_row E cfg n row st) = skipped_count st + 1)"
    using process_row_outcome[of st E cfg n row] by (auto simp: row_outcome_def)
  have run: "0 \<le> p \<and> 0 \<le> s \<and> p + s = int (rows_read (rows_of_file E cfg))"
    if "counters (generate_barcodes_from_csv E cfg w) = Some (p, s)" for p s
  proof -
    from that obtain cls where
      "counters (read_csv E cfg \<lparr>processed_count = 0, skipped_count = 0,
                  log = setup_log E cfg cls, world = w, written = []\<rparr>) = Some (p, s)"
      by (auto simp: generate_barcodes_from_csv_def aborted_def propagated_def
               split: option.splits sum.splits exn.splits)
    with read_csv_counters[of E cfg "\<lparr>processed_count = 0, skipped_count = 0,
                  log = setup_log E cfg cls, world = w, written = []\<rparr>"]
    show ?thesis by auto
  qed
  from one run process_rows_counters[of E cfg i items st] show ?thesis by blast
qed

theorem counter_conservation_witness:
  "counters (generate_barcodes_from_csv (demo_env three_rows) demo_config []) = Some (1, 2)
   \<and> int (rows_read (rows_of_file (demo_env three_rows) demo_config)) = 3"
proof -
  have c: "counters (generate_barcodes_from_csv (demo_env three_rows) demo_config [])
             = Some (1, 2)"
    by code_simp
  from counter_conservation[of "demo_env three_rows" demo_config 0 "[]" fresh 0 "[]" "[]"] c
  show ?thesis by simp
qed

lemma process_row_log:
  "\<exists>e. log (process_row E cfg n row st) = log st @ [e] \<and> reports e n"
  using process_row_outcome[of st E cfg n row] by (auto simp: row_outcome_def reports_def)

lemma process_rows_fold:
  "process_rows E cfg k (map Row rows) st
     = (fold (\<lambda>(i, row). process_row E cfg (int i + (if skip_header cfg then 2 else 1)) row)
          (enumerate k rows) st, None)"
  by (induction rows arbitrary: k st) (simp_all add: row_number_of_def)

lemma process_rows_log:
  "\<exists>es. log (fst (process_rows E cfg k (map Row rows) st)) = log st @ es
        \<and> length es = length rows
        \<and> (\<forall>i < length rows. reports (es ! i) (row_number_of cfg (k + i)))"
proof (induction rows arbitrary: k st)
  case Nil
  show ?case by simp
next
  case (Cons row rows)
  let ?st1 = "process_row E cfg (row_number_of cfg k) row st"
  obtain e where e: "log ?st1 = log st @ [e]" "reports e (row_number_of cfg k)"
    using process_row_log by blast
  obtain es where es: "log (fst (process_rows E cfg (Suc k) (map Row rows) ?st1)) = log ?st1 @ es"
      "length es = length rows"
      "\<forall>i < length rows. reports (es ! i) (row_number_of cfg (Suc k + i))"
    using Cons.IH[of "Suc k" ?st1] by blast
  have "\<forall>i < length (row # rows). reports ((e # es) ! i) (row_number_of cfg (k + i))"
  proof (intro allI impI)
    fix i assume "i < length (row # rows)"
    then show "reports ((e # es) ! i) (row_number_of cfg (k + i))"
      using e(2) es(3) by (cases i) auto
  qed
  with e(1) es(1,2) show ?case
    by (intro exI[of _ "e # es"]) simp
qed

text \<open>
  C9. The \<open>i\<close>-th data row (counted from zero) is processed with the row number
  \<open>i + 2\<close> when the header is skipped and \<open>i + 1\<close> otherwise; each row adds one
  entry to the log, and the entry of the \<open>i\<close>-th row reports that number (the entry of
  a success reports no row number).
\<close>

theorem row_numbering:
  "process_rows E cfg 0 (map Row rows) st
     = (fold (\<lambda>(i, row). process_row E cfg (int i + (if skip_header cfg then 2 else 1)) row)
          (enumerate 0 rows) st, None)
   \<and> length (log (fst (process_rows E cfg 0 (map Row rows) st))) = length (log st) + length rows
   \<and> (\<forall>i < length rows.
        reports (log (fst (process_rows E cfg 0 (map Row rows) st)) ! (length (log st) + i))
          (int i + (if skip_header cfg then 2 else 1)))"
proof -
  obtain es where es: "log (fst (process_rows E cfg 0 (map Row rows) st)) = log st @ es"
      "length es = length rows"
      "\<forall>i < length rows. reports (es ! i) (row_number_of cfg (0 + i))"
    using process_rows_log[of E cfg 0 rows st] by blast
  then show ?thesis
    by (simp add: process_rows_fold row_number_of_def nth_append)
qed

theorem row_numbering_witness:
  "reports (log (fst (process_rows (demo_env []) demo_config 0
               (map Row [[str ''123456789012''], [str ''1234''], [str ''abc'']]) fresh)) ! 1) 3
   \<and> log (fst (process_rows (demo_env []) demo_config 0
               (map Row [[str ''123456789012''], [str ''1234''], [str ''abc'']]) fresh)) ! 1
       = Warning_NotEan13 3 (str ''1234'')"
proof -
  have a: "(1::nat) < length [[str ''123456789012''], [str ''1234''], [str ''abc'']]"
    by simp
  have b: "skip_header demo_config"
    by (simp add: demo_config_def)
  have c: "log (fst (process_rows (demo_env []) demo_config 0
               (map Row [[str ''123456789012''], [str ''1234''], [str ''abc'']]) fresh)) ! 1
       = Warning_NotEan13 3 (str ''1234'')"
    by code_simp
  have d: "log fresh = []"
    by (simp add: fresh_def)
  from row_numbering[of "demo_env []" demo_config
         "[[str ''123456789012''], [str ''1234''], [str ''abc'']]" fresh] a b c d
  show ?thesis by auto
qed

section \<open>Errors raised while a row is processed\<close>

text \<open>
  C3. An exception raised while one row is processed does not leave the loop body:
  an \<open>IndexError\<close> of the field access (line 139), an exception of the constructor of
  the barcode and an exception of \<open>save\<close> (line 131) each add one log entry and one to
  \<open>skipped_count\<close>; \<open>processed_count\<close> and the images written stay as they were, the
  world is what the failed \<open>save\<close> left. Whatever the row did, the loop goes on with the
  rows that follow.
\<close>

theorem row_errors_caught:
  "(int (length row) > col_index cfg \<and> index row (col_index cfg) = Inl e \<longrightarrow>
      process_row E cfg n row st
        = st\<lparr>log := log st @ [Error_Row n e], skipped_count := skipped_count st + 1\<rparr>)
   \<and> (reaches_rendering E cfg row code \<and> construct E (code_format cfg) code = Some e \<longrightarrow>
      process_row E cfg n row st
        = st\<lparr>log := log st @ [Error_Code code n e], skipped_count := skipped_count st + 1\<rparr>)
   \<and> (reaches_rendering E cfg row code \<and> construct E (code_format cfg) code = None
        \<and> save E (world st) (code_format cfg) code (save_path (udb E) cfg n code) (options cfg)
            = (Inl e, w) \<longrightarrow>
      process_row E cfg n row st
        = st\<lparr>log := log st @ [Error_Code code n e], skipped_count := skipped_count st + 1,
             world := w\<rparr>)
   \<and> process_rows E cfg i (Row row # rest) st
       = process_rows E cfg (Suc i) rest (process_row E cfg (row_number_of cfg i) row st)"
proof (intro conjI impI)
  assume "int (length row) > col_index cfg \<and> index row (col_index cfg) = Inl e"
  then show "process_row E cfg n row st
        = st\<lparr>log := log st @ [Error_Row n e], skipped_count := skipped_count st + 1\<rparr>"
    by (simp add: process_row_def skip_row_def logging_def)
next
  assume "reaches_rendering E cfg row code \<and> construct E (code_format cfg) code = Some e"
  then show "process_row E cfg n row st
        = st\<lparr>log := log st @ [Error_Code code n e], skipped_count := skipped_count st + 1\<rparr>"
    using reaches_rendering_emit[of E cfg row code n st]
    by (simp add: emit_barcode_def skip_row_def logging_def)
next
  assume "reaches_rendering E cfg row code \<and> construct E (code_format cfg) code = None
        \<and> save E (world st) (code_format cfg) code (save_path (udb E) cfg n code) (options cfg)
            = (Inl e, w)"
  then show "process_row E cfg n row st
        = st\<lparr>log := log st @ [Error_Code code n e], skipped_count := skipped_count st + 1,
             world := w\<rparr>"
    using reaches_rendering_emit[of E cfg row code n st]
    by (simp add: emit_barcode_def skip_row_def logging_def)
next
  show "process_rows E cfg i (Row row # rest) st
       = process_rows E cfg (Suc i) rest (process_row E cfg (row_number_of cfg i) row st)"
    by simp
qed

theorem row_errors_caught_witness:
  "process_row (demo_env []) (demo_config\<lparr>col_index := - 1\<rparr>) 2 [] fresh
     = fresh\<lparr>log := [Error_Row 2 IndexError], skipped_count := 1\<rparr>
   \<and> process_row failing_construct demo_config 2 [str ''123456789012''] fresh
     = fresh\<lparr>log := [Error_Code (str ''123456789012'') 2 (Raised (str ''bad''))],
             skipped_count := 1\<rparr>
   \<and> process_row failing_save demo_config 2 [str ''123456789012''] fresh
     = fresh\<lparr>log := [Error_Code (str ''123456789012'') 2 (Raised (str ''full''))],
             skipped_count := 1\<rparr>"
proof -
  have a: "int (length ([] :: pystr list)) > col_index (demo_config\<lparr>col_index := - 1\<rparr>)
           \<and> index ([] :: pystr list) (col_index (demo_config\<lparr>col_index := - 1\<rparr>))
               = Inl IndexError"
    by (simp add: index_def)
  have b: "reaches_rendering failing_construct demo_config [str ''123456789012'']
             (str ''123456789012'')
           \<and> construct failing_construct (code_format demo_config) (str ''123456789012'')
               = Some (Raised (str ''bad''))"
    by code_simp
  have c: "reaches_rendering failing_save demo_config [str ''123456789012'']
             (str ''123456789012'')
           \<and> construct failing_save (code_format demo_config) (str ''123456789012'') = None
           \<and> save failing_save (world fresh) (code_format demo_config) (str ''123456789012'')
                (save_path (udb failing_save) demo_config 2 (str ''123456789012''))
                (options demo_config)
               = (Inl (Raised (str ''full'')), [])"
    by code_simp
  have d: "log fresh = [] \<and> skipped_count fresh = 0 \<and> fresh\<lparr>world := []\<rparr> = fresh"
    by (simp add: fresh_def)
  from row_errors_caught[where row = "[]" and cfg = "demo_config\<lparr>col_index := - 1\<rparr>"
         and e = IndexError and E = "demo_env []" and n = 2 and st = fresh] a d
  have one: "process_row (demo_env []) (demo_config\<lparr>col_index := - 1\<rparr>) 2 [] fresh
     = fresh\<lparr>log := [Error_Row 2 IndexError], skipped_count := 1\<rparr>"
    by simp
  from row_errors_caught[where row = "[str ''123456789012'']" and cfg = demo_config
         and e = "Raised (str ''bad'')" and E = failing_construct and n = 2 and st = fresh
         and code = "str ''123456789012''"] b d
  have two: "process_row failing_construct demo_config 2 [str ''123456789012''] fresh
     = fresh\<lparr>log := [Error_Code (str ''123456789012'') 2 (Raised (str ''bad''))],
             skipped_count := 1\<rparr>"
    by simp
  from row_errors_caught[where row = "[str ''123456789012'']" and cfg = demo_config
         and e = "Raised (str ''full'')" and E = failing_save and n = 2 and st = fresh
         and code = "str ''123456789012''" and w = "[]"] c d
  have three: "process_row failing_save demo_config 2 [str ''123456789012''] fresh
     = fresh\<lparr>log := [Error_Code (str ''123456789012'') 2 (Raised (str ''full''))],
             skipped_count := 1\<rparr>"
    by (simp add: fresh_def)
  from one two three show ?thesis by simp
qed

section \<open>What a call returns and logs\<close>

lemma summary_result:
  "summary st =
     \<lparr>retval = Inr PyNone, counters = Some (processed_count st, skipped_count st),
      out_log = log st @ [Info_Summary (processed_count st) (skipped_count st)],
      out_world = world st, out_written = written st\<rparr>"
  by (simp add: summary_def returned_def logging_def)

lemma retval_read_loop: "retval (read_loop E cfg items st) = Inr PyNone"
  by (cases "process_rows E cfg 0 items st")
     (auto simp: read_loop_def summary_result split: option.splits)

lemma retval_read_csv: "retval (read_csv E cfg st) = Inr PyNone"
  by (auto simp: read_csv_def summary_result returned_def retval_read_loop
           split: open_result.splits list.splits read_item.splits)

lemma read_loop_summary:
  "\<exists>p s. counters (read_loop E cfg items st) = Some (p, s)
         \<and> last (out_log (read_loop E cfg items st)) = Info_Summary p s"
  by (cases "process_rows E cfg 0 items st")
     (auto simp: read_loop_def summary_result split: option.splits)

lemma read_csv_summary:
  assumes "\<not> (open_csv E (input_csv cfg) = Opened [] \<and> skip_header cfg)"
  shows "\<exists>p s. counters (read_csv E cfg st) = Some (p, s)
         \<and> last (out_log (read_csv E cfg st)) = Info_Summary p s"
proof (cases "open_csv E (input_csv cfg)")
  case NotFound
  then show ?thesis by (simp add: read_csv_def summary_result)
next
  case (OpenFailed e)
  then show ?thesis by (simp add: read_csv_def summary_result)
next
  case (Opened items)
  show ?thesis
  proof (cases "skip_header cfg")
    case False
    with Opened show ?thesis by (simp add: read_csv_def read_loop_summary)
  next
    case True
    with Opened assms obtain item rest where items: "items = item # rest"
      by (cases items) auto
    show ?thesis
    proof (cases item)
      case (ReadFault e)
      with items True Opened show ?thesis by (simp add: read_csv_def summary_result)
    next
      case (Row header)
      with items True Opened show ?thesis by (simp add: read_csv_def read_loop_summary)
    qed
  qed
qed

lemma generate_ends:
  "retval (generate_barcodes_from_csv E cfg w) = Inr PyNone
   \<or> (\<exists>e. retval (generate_barcodes_from_csv E cfg w) = Inl e
          \<and> counters (generate_barcodes_from_csv E cfg w) = None
          \<and> out_written (generate_barcodes_from_csv E cfg w) = []
          \<and> (makedirs E (output_folder cfg) = Some e
              \<or> get_barcode_class E (code_format cfg) = Inl e))"
  by (auto simp: generate_barcodes_from_csv_def aborted_def propagated_def retval_read_csv
           split: option.splits sum.splits exn.splits)

text \<open>
  C4. When the folder and the format are good, the header is to be skipped and the
  reader yields no row at all, the call logs the warning of line 90 and returns at
  line 91: both counters are zero, no row was processed, no image was written, and no
  summary is logged.
\<close>

theorem empty_csv_with_header:
  assumes "makedirs E (output_folder cfg) = None"
    and "get_barcode_class E (code_format cfg) = Inr cls"
    and "open_csv E (input_csv cfg) = Opened []"
    and "skip_header cfg"
  shows "generate_barcodes_from_csv E cfg w
           = \<lparr>retval = Inr PyNone, counters = Some (0, 0),
              out_log = setup_log E cfg cls @ [Warning_CsvEmpty],
              out_world = w, out_written = []\<rparr>"
  using assms
  by (simp add: generate_barcodes_from_csv_def read_csv_def returned_def logging_def)

theorem empty_csv_with_header_witness:
  "generate_barcodes_from_csv (demo_env []) demo_config []
     = \<lparr>retval = Inr PyNone, counters = Some (0, 0),
        out_log = setup_log (demo_env []) demo_config (str ''EuropeanArticleNumber13'')
          @ [Warning_CsvEmpty],
        out_world = [], out_written = []\<rparr>"
proof -
  have a: "makedirs (demo_env []) (output_folder demo_config) = None"
    by (simp add: demo_env_def)
  have b: "get_barcode_class (demo_env []) (code_format demo_config)
             = Inr (str ''EuropeanArticleNumber13'')"
    by code_simp
  have c: "open_csv (demo_env []) (input_csv demo_config) = Opened []"
    by (simp add: demo_env_def demo_config_def)
  have d: "skip_header demo_config"
    by (simp add: demo_config_def)
  show ?thesis
    by (rule empty_csv_with_header[OF a b c d])
qed

text \<open>
  C2, as the code has it. No call returns a pair: a call that returns, returns \<open>None\<close>,
  and the counts reach the caller through the log only. (A call ends otherwise only
  when \<open>os.makedirs\<close> raises something that is not an \<open>OSError\<close>, or the lookup of
  the format something that is not a \<open>BarcodeNotFoundError\<close>: that exception leaves
  the function, before the counters exist and with no image written.) A folder that
  cannot be made (\<open>OSError\<close>) and an unknown format end the call before the counters
  exist, with no summary. A missing input file is logged and followed by the summary,
  with zero counts. An empty file whose header was to be skipped ends the call with
  zero counters and no summary. In these four cases no image is written. In every
  other call that reaches line 76 the call returns \<open>None\<close> and the last log entry is
  the summary, which carries the two counters.
\<close>

theorem run_returns_nothing:
  "(retval (generate_barcodes_from_csv E cfg w) = Inr PyNone
     \<or> (\<exists>x. retval (generate_barcodes_from_csv E cfg w) = Inl x
          \<and> counters (generate_barcodes_from_csv E cfg w) = None
          \<and> out_written (generate_barcodes_from_csv E cfg w) = []
          \<and> (makedirs E (output_folder cfg) = Some x
              \<or> get_barcode_class E (code_format cfg) = Inl x)))
   \<and> (makedirs E (output_folder cfg) = Some e \<and> (\<forall>m. e \<noteq> OSError m) \<longrightarrow>
        retval (generate_barcodes_from_csv E cfg w) = Inl e)
   \<and> (makedirs E (output_folder cfg) = Some (OSError m) \<longrightarrow>
        generate_barcodes_from_csv E cfg w
          = \<lparr>retval = Inr PyNone, counters = None,
             out_log = start_log cfg @ [Error_MakeDirs (OSError m)],
             out_world = w, out_written = []\<rparr>)
   \<and> (makedirs E (output_folder cfg) = None
        \<and> get_barcode_class E (code_format cfg) = Inl (BarcodeNotFoundError m) \<longrightarrow>
        generate_barcodes_from_csv E cfg w
          = \<lparr>retval = Inr PyNone, counters = None,
             out_log = start_log cfg @ [Info_FolderReady (output_folder cfg),
                         Error_FormatNotFound (code_format cfg)],
             out_world = w, out_written = []\<rparr>)
   \<and> (makedirs E (output_folder cfg) = None
        \<and> get_barcode_class E (code_format cfg) = Inr cls
        \<and> open_csv E (input_csv cfg) = NotFound \<longrightarrow>
        generate_barcodes_from_csv E cfg w
          = \<lparr>retval = Inr PyNone, counters = Some (0, 0),
             out_log = setup_log E cfg cls
               @ [Error_CsvNotFound (input_csv cfg), Info_Summary 0 0],
             out_world = w, out_written = []\<rparr>)
   \<and> (makedirs E (output_folder cfg) = None
        \<and> get_barcode_class E (code_format cfg) = Inr cls
        \<and> open_csv E (input_csv cfg) = Opened [] \<and> skip_header cfg \<longrightarrow>
        generate_barcodes_from_csv E cfg w
          = \<lparr>retval = Inr PyNone, counters = Some (0, 0),
             out_log = setup_log E cfg cls @ [Warning_CsvEmpty],
             out_world = w, out_written = []\<rparr>)
   \<and> (makedirs E (output_folder cfg) = None
        \<and> get_barcode_class E (code_format cfg) = Inr cls
        \<and> \<not> (open_csv E (input_csv cfg) = Opened [] \<and> skip_header cfg) \<longrightarrow>
        retval (generate_barcodes_from_csv E cfg w) = Inr PyNone
        \<and> (\<exists>p s. counters (generate_barcodes_from_csv E cfg w) = Some (p, s)
              \<and> last (out_log (generate_barcodes_from_csv E cfg w)) = Info_Summary p s))"
proof (intro conjI impI)
  show "retval (generate_barcodes_from_csv E cfg w) = Inr PyNone
     \<or> (\<exists>x. retval (generate_barcodes_from_csv E cfg w) = Inl x
          \<and> counters (generate_barcodes_from_csv E cfg w) = None
          \<and> out_written (generate_barcodes_from_csv E cfg w) = []
          \<and> (makedirs E (output_folder cfg) = Some x
              \<or> get_barcode_class E (code_format cfg) = Inl x))"
    by (rule generate_ends)
next
  assume "makedirs E (output_folder cfg) = Some e \<and> (\<forall>m. e \<noteq> OSError m)"
  then show "retval (generate_barcodes_from_csv E cfg w) = Inl e"
    by (cases e) (simp_all add: generate_barcodes_from_csv_def propagated_def)
next
  assume "makedirs E (output_folder cfg) = Some (OSError m)"
  then show "generate_barcodes_from_csv E cfg w
          = \<lparr>retval = Inr PyNone, counters = None,
             out_log = start_log cfg @ [Error_MakeDirs (OSError m)],
             out_world = w, out_written = []\<rparr>"
    by (simp add: generate_barcodes_from_csv_def aborted_def)
next
  assume "makedirs E (output_folder cfg) = None
        \<and> get_barcode_class E (code_format cfg) = Inl (BarcodeNotFoundError m)"
  then show "generate_barcodes_from_csv E cfg w
          = \<lparr>retval = Inr PyNone, counters = None,
             out_log = start_log cfg @ [Info_FolderReady (output_folder cfg),
                         Error_FormatNotFound (code_format cfg)],
             out_world = w, out_written = []\<rparr>"
    by (simp add: generate_barcodes_from_csv_def aborted_def)
next
  assume "makedirs E (output_folder cfg) = None
        \<and> get_barcode_class E (code_format cfg) = Inr cls
        \<and> open_csv E (input_csv cfg) = NotFound"
  then show "generate_barcodes_from_csv E cfg w
          = \<lparr>retval = Inr PyNone, counters = Some (0, 0),
             out_log = setup_log E cfg cls
               @ [Error_CsvNotFound (input_csv cfg), Info_Summary 0 0],
             out_world = w, out_written = []\<rparr>"
    by (simp add: generate_barcodes_from_csv_def read_csv_def summary_result logging_def)
next
  assume "makedirs E (output_folder cfg) = None
        \<and> get_barcode_class E (code_format cfg) = Inr cls
        \<and> open_csv E (input_csv cfg) = Opened [] \<and> skip_header cfg"
  then show "generate_barcodes_from_csv E cfg w
          = \<lparr>retval = Inr PyNone, counters = Some (0, 0),
             out_log = setup_log E cfg cls @ [Warning_CsvEmpty],
             out_world = w, out_written = []\<rparr>"
    by (simp add: generate_barcodes_from_csv_def read_csv_def returned_def logging_def)
next
  assume a: "makedirs E (output_folder cfg) = None
        \<and> get_barcode_class E (code_format cfg) = Inr cls
        \<and> \<not> (open_csv E (input_csv cfg) = Opened [] \<and> skip_header cfg)"
  then show "retval (generate_barcodes_from_csv E cfg w) = Inr PyNone"
    by (simp add: generate_barcodes_from_csv_def retval_read_csv)
  from a show "\<exists>p s. counters (generate_barcodes_from_csv E cfg w) = Some (p, s)
           \<and> last (out_log (generate_barcodes_from_csv E cfg w)) = Info_Summary p s"
    using read_csv_summary[of E cfg]
    by (simp add: generate_barcodes_from_csv_def)
qed

text \<open>
  The claim as stated fails: on a header and three data rows, one of them valid, the
  counters end at \<open>(1, 2)\<close> and the call returns \<open>None\<close>, not that pair.
\<close>

theorem returns_none_counterexample:
  "retval (generate_barcodes_from_csv (demo_env three_rows) demo_config []) = Inr PyNone
   \<and> retval (generate_barcodes_from_csv (demo_env three_rows) demo_config [])
       \<noteq> Inr (PyTuple 1 2)
   \<and> counters (generate_barcodes_from_csv (demo_env three_rows) demo_config []) = Some (1, 2)"
  by code_simp

theorem run_returns_nothing_witness:
  "generate_barcodes_from_csv no_folder demo_config []
     = \<lparr>retval = Inr PyNone, counters = None,
        out_log = start_log demo_config @ [Error_MakeDirs (OSError (str ''denied''))],
        out_world = [], out_written = []\<rparr>
   \<and> retval (generate_barcodes_from_csv nul_checking
         (demo_config\<lparr>output_folder := [97, 0, 98]\<rparr>) [])
       = Inl (Raised (str ''embedded null byte''))
   \<and> generate_barcodes_from_csv (demo_env []) (demo_config\<lparr>code_format := str ''qr''\<rparr>) []
     = \<lparr>retval = Inr PyNone, counters = None,
        out_log = start_log (demo_config\<lparr>code_format := str ''qr''\<rparr>)
          @ [Info_FolderReady (output_folder demo_config), Error_FormatNotFound (str ''qr'')],
        out_world = [], out_written = []\<rparr>
   \<and> generate_barcodes_from_csv (demo_env []) (demo_config\<lparr>input_csv := str ''brak.csv''\<rparr>) []
     = \<lparr>retval = Inr PyNone, counters = Some (0, 0),
        out_log = setup_log (demo_env []) (demo_config\<lparr>input_csv := str ''brak.csv''\<rparr>)
            (str ''EuropeanArticleNumber13'')
          @ [Error_CsvNotFound (str ''brak.csv''), Info_Summary 0 0],
        out_world = [], out_written = []\<rparr>
   \<and> retval (generate_barcodes_from_csv (demo_env three_rows) demo_config []) = Inr PyNone
   \<and> (\<exists>p s. counters (generate_barcodes_from_csv (demo_env three_rows) demo_config [])
               = Some (p, s)
          \<and> last (out_log (generate_barcodes_from_csv (demo_env three_rows) demo_config []))
               = Info_Summary p s)"
proof -
  have a: "makedirs no_folder (output_folder demo_config) = Some (OSError (str ''denied''))"
    by (simp add: no_folder_def)
  have n: "makedirs nul_checking (output_folder (demo_config\<lparr>output_folder := [97, 0, 98]\<rparr>))
             = Some (Raised (str ''embedded null byte''))
           \<and> (\<forall>m. Raised (str ''embedded null byte'') \<noteq> OSError m)"
    by (simp add: nul_checking_def)
  have b: "makedirs (demo_env []) (output_folder (demo_config\<lparr>code_format := str ''qr''\<rparr>)) = None
           \<and> get_barcode_class (demo_env []) (code_format (demo_config\<lparr>code_format := str ''qr''\<rparr>))
               = Inl (BarcodeNotFoundError (str ''qr''))"
    by code_simp
  have c: "makedirs (demo_env []) (output_folder (demo_config\<lparr>input_csv := str ''brak.csv''\<rparr>)) = None
           \<and> get_barcode_class (demo_env []) (code_format (demo_config\<lparr>input_csv := str ''brak.csv''\<rparr>))
               = Inr (str ''EuropeanArticleNumber13'')
           \<and> open_csv (demo_env []) (input_csv (demo_config\<lparr>input_csv := str ''brak.csv''\<rparr>)) = NotFound"
    by code_simp
  have d: "makedirs (demo_env three_rows) (output_folder demo_config) = None
           \<and> get_barcode_class (demo_env three_rows) (code_format demo_config)
               = Inr (str ''EuropeanArticleNumber13'')
           \<and> \<not> (open_csv (demo_env three_rows) (input_csv demo_config) = Opened []
                 \<and> skip_header demo_config)"
    by code_simp
  from run_returns_nothing[where E = no_folder and cfg = demo_config
         and m = "str ''denied''" and w = "[]"] a
  have one: "generate_barcodes_from_csv no_folder demo_config []
     = \<lparr>retval = Inr PyNone, counters = None,
        out_log = start_log demo_config @ [Error_MakeDirs (OSError (str ''denied''))],
        out_world = [], out_written = []\<rparr>"
    by simp
  from run_returns_nothing[where E = nul_checking
         and cfg = "demo_config\<lparr>output_folder := [97, 0, 98]\<rparr>"
         and e = "Raised (str ''embedded null byte'')" and w = "[]"] n
  have nul: "retval (generate_barcodes_from_csv nul_checking
         (demo_config\<lparr>output_folder := [97, 0, 98]\<rparr>) [])
       = Inl (Raised (str ''embedded null byte''))"
    by simp
  from run_returns_nothing[where E = "demo_env []"
         and cfg = "demo_config\<lparr>code_format := str ''qr''\<rparr>" and m = "str ''qr''"
         and w = "[]"] b
  have two: "generate_barcodes_from_csv (demo_env []) (demo_config\<lparr>code_format := str ''qr''\<rparr>) []
     = \<lparr>retval = Inr PyNone, counters = None,
        out_log = start_log (demo_config\<lparr>code_format := str ''qr''\<rparr>)
          @ [Info_FolderReady (output_folder demo_config), Error_FormatNotFound (str ''qr'')],
        out_world = [], out_written = []\<rparr>"
    by simp
  from run_returns_nothing[where E = "demo_env []"
         and cfg = "demo_config\<lparr>input_csv := str ''brak.csv''\<rparr>"
         and cls = "str ''EuropeanArticleNumber13''" and w = "[]"] c
  have three: "generate_barcodes_from_csv (demo_env []) (demo_config\<lparr>input_csv := str ''brak.csv''\<rparr>) []
     = \<lparr>retval = Inr PyNone, counters = Some (0, 0),
        out_log = setup_log (demo_env []) (demo_config\<lparr>input_csv := str ''brak.csv''\<rparr>)
            (str ''EuropeanArticleNumber13'')
          @ [Error_CsvNotFound (str ''brak.csv''), Info_Summary 0 0],
        out_world = [], out_written = []\<rparr>"
    by simp
  from run_returns_nothing[where E = "demo_env three_rows" and cfg = demo_config
         and cls = "str ''EuropeanArticleNumber13''" and w = "[]"] d
  have four: "retval (generate_barcodes_from_csv (demo_env three_rows) demo_config [])
               = Inr PyNone
          \<and> (\<exists>p s. counters (generate_barcodes_from_csv (demo_env three_rows) demo_config [])
               = Some (p, s)
          \<and> last (out_log (generate_barcodes_from_csv (demo_env three_rows) demo_config []))
               = Info_Summary p s)"
    by simp
  from one nul two three four show ?thesis by simp
qed

section \<open>The path handed to the library\<close>

text \<open>
  C5. Line 127 removes every occurrence of \<open>.png\<close> from the whole path, not only the
  extension at its end. With the output folder \<open>out.png\<close> the path built at line 123
  is \<open>out.png/123456789012.png\<close>, but \<open>save\<close> is asked to write
  \<open>out/123456789012\<close>: the image lands outside the configured folder.
\<close>

theorem save_path_leaves_folder:
  "output_path plain_db (demo_config\<lparr>output_folder := str ''out.png''\<rparr>) 2
       (str ''123456789012'') = str ''out.png/123456789012.png''
   \<and> save_path plain_db (demo_config\<lparr>output_folder := str ''out.png''\<rparr>) 2
       (str ''123456789012'') = str ''out/123456789012''
   \<and> out_written (generate_barcodes_from_csv
         (demo_env [Row [str ''code''], Row [str ''123456789012'']])
         (demo_config\<lparr>output_folder := str ''out.png''\<rparr>) [])
       = [(str ''out/123456789012'', str ''out/123456789012.png'')]"
  by code_simp

text \<open>
  When the name of the folder has no dot in it, the path handed to \<open>save\<close> is the
  safe filename (never empty, free of dots and slashes) inside the configured folder.
\<close>

lemma replace_from_suffix:
  "c \<notin> set s \<Longrightarrow> replace_from (s @ c # ext) (c # ext) [] = s"
  by (induction s) auto

lemma set_digits: "set (digits n) \<subseteq> {48..57}"
proof (induction n rule: digits.induct)
  case (1 n)
  show ?case
  proof (cases "n < 10")
    case True
    then show ?thesis by (subst digits.simps) auto
  next
    case False
    have "48 + n mod 10 \<le> 57"
      using mod_less_divisor[of 10 n] by linarith
    with False 1 show ?thesis by (subst digits.simps) auto
  qed
qed

lemma digits_nonempty: "digits n \<noteq> []"
  by (subst digits.simps) simp

lemma safe_filename_chars:
  "46 \<notin> set (safe_filename U n code) \<and> 47 \<notin> set (safe_filename U n code)
   \<and> safe_filename U n code \<noteq> []"
proof -
  have san: "c \<in> set (sanitize U code) \<Longrightarrow> safe_char U c" for c
    using set_rstrip[of U "filter (safe_char U) code"] by (auto simp: sanitize_def)
  have no: "\<not> safe_char U 46" "\<not> safe_char U 47"
    by (simp_all add: safe_char_def char_isalnum_def is_ascii_def ascii_digit_def
        ascii_upper_letter_def ascii_lower_letter_def str_def)
  have dig: "46 \<notin> set (str_of_int n) \<and> 47 \<notin> set (str_of_int n)"
    using set_digits[of "nat n"] set_digits[of "nat (- n)"]
    by (auto simp: str_of_int_def str_def)
  show ?thesis
    using san no dig by (auto simp: safe_filename_def str_def)
qed

lemma path_join_append:
  "b \<noteq> [] \<Longrightarrow> path_join a (b @ x) = path_join a b @ x"
  by (cases b) (auto simp: path_join_def)

lemma set_path_join: "set (path_join a b) \<subseteq> set a \<union> set b \<union> {47}"
  by (auto simp: path_join_def str_def)

lemma save_path_plain:
  assumes "46 \<notin> set (output_folder cfg)"
  shows "save_path U cfg n code = path_join (output_folder cfg) (safe_filename U n code)"
proof -
  let ?safe = "safe_filename U n code" and ?ext = "lower U (img_format cfg)"
  have "output_path U cfg n code = path_join (output_folder cfg) ?safe @ 46 # ?ext"
    using safe_filename_chars[of U n code]
    by (simp add: output_path_def output_filename_def path_join_append str_def)
  moreover have "46 \<notin> set (path_join (output_folder cfg) ?safe)"
    using assms safe_filename_chars[of U n code] set_path_join[of "output_folder cfg" ?safe]
    by auto
  ultimately show ?thesis
    by (simp add: save_path_def replace_def str_def replace_from_suffix)
qed

end
